theory Spec2Isabelle
  imports Complex_Main
begin

section \<open>Numbers, errors and external data\<close>

text \<open>
  The text layout engine of pdfme (\<^verbatim>\<open>src/pdfme/text.py\<close>) and the entry point
  \<^verbatim>\<open>PDF.create_text\<close> (\<^verbatim>\<open>src/pdfme/pdf.py\<close>), embedded function by function.
  Python numbers are modelled as exact rationals. Every \<^verbatim>\<open>raise\<close> of the source and
  every failing lookup is a value \<open>Inl e\<close> of a sum type.
\<close>

datatype error = KeyError | TypeError | AttributeError | ValueError | IndexError
  | ZeroDivisionError | Exception

type_synonym 'a result = "error + 'a"

definition bind :: "'a result \<Rightarrow> ('a \<Rightarrow> 'b result) \<Rightarrow> 'b result" where
  "bind m f = (case m of Inl e \<Rightarrow> Inl e | Inr x \<Rightarrow> f x)"

text \<open>Python's \<^verbatim>\<open>round(x, 3)\<close>, ties to the even neighbour, on exact rationals.\<close>

definition round_half_even :: "rat \<Rightarrow> int" where
  "round_half_even x =
     (let f = floor x; d = x - of_int f
      in if d < 1/2 then f else if 1/2 < d then f + 1 else if even f then f else f + 1)"

definition round3 :: "rat \<Rightarrow> rat" where
  "round3 x = of_int (round_half_even (x * 1000)) / 1000"

text \<open>
  The font metric table: family, then variant (\<^verbatim>\<open>'n'\<close>, \<^verbatim>\<open>'b'\<close>, \<^verbatim>\<open>'i'\<close>, \<^verbatim>\<open>'bi'\<close>), then
  \<^verbatim>\<open>'ref'\<close>, \<^verbatim>\<open>'base_font'\<close> and \<^verbatim>\<open>'widths'\<close>. The tables themselves
  (\<^verbatim>\<open>standard_fonts\<close>) are external data, so the table is an argument everywhere.
\<close>

record font_entry =
  ref :: string
  base_font :: string
  widths :: "char \<rightharpoonup> rat"

type_synonym fonts = "string \<rightharpoonup> (string \<rightharpoonup> font_entry)"

text \<open>
  Modelled from the spec: \<^verbatim>\<open>PDFColor\<close> (module \<^verbatim>\<open>color\<close> is not among the sources).
  A colour is the value it was built from and a stroke flag, and two colours compare
  structurally.
\<close>

record pdfcolor =
  color :: "rat list option"
  stroke :: bool

definition PDFColor :: "rat list option \<Rightarrow> pdfcolor" where
  "PDFColor c = \<lparr>color = c, stroke = False\<rparr>"

definition PDFColor_stroke :: "pdfcolor \<Rightarrow> pdfcolor" where
  "PDFColor_stroke c = \<lparr>color = color c, stroke = True\<rparr>"

text \<open>
  A style dictionary with the keys the engine reads. \<^verbatim>\<open>TEXT_DEFAULTS\<close> gives \<^verbatim>\<open>f\<close>, \<^verbatim>\<open>c\<close>,
  \<^verbatim>\<open>s\<close>, \<^verbatim>\<open>r\<close>, \<^verbatim>\<open>bg\<close>; the flags \<^verbatim>\<open>b\<close>, \<^verbatim>\<open>i\<close>, \<^verbatim>\<open>u\<close> are read with
  \<^verbatim>\<open>style.get(_, False)\<close> (fields \<open>st_f\<close> ... \<open>st_u\<close>). A dictionary passed to \<^verbatim>\<open>style.update\<close> is a
  \<open>style_patch\<close>: the keys it holds.
\<close>

record style =
  st_f :: string
  st_c :: "rat list option"
  st_s :: rat
  st_r :: rat
  st_bg :: "rat list option"
  st_b :: bool
  st_i :: bool
  st_u :: bool

record style_patch =
  p_f :: "string option"
  p_c :: "rat list option option"
  p_s :: "rat option"
  p_r :: "rat option"
  p_bg :: "rat list option option"
  p_b :: "bool option"
  p_i :: "bool option"
  p_u :: "bool option"

definition empty_patch :: style_patch where
  "empty_patch = \<lparr>p_f = None, p_c = None, p_s = None, p_r = None, p_bg = None,
     p_b = None, p_i = None, p_u = None\<rparr>"

definition style_update :: "style \<Rightarrow> style_patch \<Rightarrow> style" where
  "style_update st p =
     \<lparr>st_f = (case p_f p of None \<Rightarrow> st_f st | Some v \<Rightarrow> v),
      st_c = (case p_c p of None \<Rightarrow> st_c st | Some v \<Rightarrow> v),
      st_s = (case p_s p of None \<Rightarrow> st_s st | Some v \<Rightarrow> v),
      st_r = (case p_r p of None \<Rightarrow> st_r st | Some v \<Rightarrow> v),
      st_bg = (case p_bg p of None \<Rightarrow> st_bg st | Some v \<Rightarrow> v),
      st_b = (case p_b p of None \<Rightarrow> st_b st | Some v \<Rightarrow> v),
      st_i = (case p_i p of None \<Rightarrow> st_i st | Some v \<Rightarrow> v),
      st_u = (case p_u p of None \<Rightarrow> st_u st | Some v \<Rightarrow> v)\<rparr>"

definition TEXT_DEFAULTS :: style where
  "TEXT_DEFAULTS = \<lparr>st_f = ''Helvetica'', st_c = Some [1/10], st_s = 11, st_r = 0,
     st_bg = None, st_b = False, st_i = False, st_u = False\<rparr>"

section \<open>PDFState\<close>

record pdfstate =
  font_family :: string
  font_mode :: string
  state_size :: rat
  state_color :: pdfcolor
  rise :: rat

text \<open>\<^verbatim>\<open>PDFState.__init__\<close>: \<^verbatim>\<open>fonts[style['f']]\<close> raises for an unknown family.\<close>

definition PDFState :: "style \<Rightarrow> fonts \<Rightarrow> pdfstate result" where
  "PDFState st fonts =
     (let f_mode = (if st_b st then ''b'' else '''') @ (if st_i st then ''i'' else '''');
          f_mode = (if f_mode = '''' then ''n'' else f_mode)
      in case fonts (st_f st) of
           None \<Rightarrow> Inl KeyError
         | Some fam \<Rightarrow>
             Inr \<lparr>font_family = st_f st,
                  font_mode = (if fam f_mode = None then ''n'' else f_mode),
                  state_size = st_s st,
                  state_color = PDFColor (st_c st),
                  rise = st_r st * st_s st\<rparr>)"

text \<open>
  The output stream is kept as the pieces of the format strings: literal text, a number
  placed by \<^verbatim>\<open>format\<close>, and \<^verbatim>\<open>str\<close> of a colour.
\<close>

datatype tok = Lit string | Num rat | Col pdfcolor

definition font_ref :: "fonts \<Rightarrow> pdfstate \<Rightarrow> string result" where
  "font_ref fonts a =
     (case fonts (font_family a) of
        None \<Rightarrow> Inl KeyError
      | Some fam \<Rightarrow> (case fam (font_mode a) of None \<Rightarrow> Inl KeyError | Some e \<Rightarrow> Inr (ref e)))"

text \<open>The three directives \<^verbatim>\<open>PDFState.compare\<close> can append.\<close>

definition font_directive :: "string \<Rightarrow> rat \<Rightarrow> tok list" where
  "font_directive rf sz = [Lit '' /'', Lit rf, Lit '' '', Num (round3 sz), Lit '' Tf'']"

definition color_directive :: "pdfcolor \<Rightarrow> tok list" where
  "color_directive col = [Lit '' '', Col col]"

definition rise_directive :: "rat \<Rightarrow> tok list" where
  "rise_directive rs = [Lit '' '', Num (round3 rs), Lit '' Ts'']"

definition font_differs :: "pdfstate \<Rightarrow> pdfstate option \<Rightarrow> bool" where
  "font_differs a other =
     (case other of None \<Rightarrow> True
      | Some o' \<Rightarrow> font_family a \<noteq> font_family o' \<or> font_mode a \<noteq> font_mode o'
                   \<or> state_size a \<noteq> state_size o')"

definition color_differs :: "pdfstate \<Rightarrow> pdfstate option \<Rightarrow> bool" where
  "color_differs a other =
     (case other of None \<Rightarrow> True | Some o' \<Rightarrow> state_color a \<noteq> state_color o')"

definition rise_differs :: "pdfstate \<Rightarrow> pdfstate option \<Rightarrow> bool" where
  "rise_differs a other =
     (case other of None \<Rightarrow> True | Some o' \<Rightarrow> rise a \<noteq> rise o')"

definition compare :: "fonts \<Rightarrow> pdfstate \<Rightarrow> pdfstate option \<Rightarrow> tok list result" where
  "compare fonts a other =
     bind (if font_differs a other
           then bind (font_ref fonts a) (\<lambda>rf. Inr (font_directive rf (state_size a)))
           else Inr [])
       (\<lambda>ret1.
          let ret2 = (if color_differs a other then ret1 @ color_directive (state_color a)
                      else ret1);
              ret3 = (if rise_differs a other then ret2 @ rise_directive (rise a)
                      else ret2)
          in Inr ret3)"

section \<open>PDFTextLinePart\<close>

record line_part =
  part_style :: style
  state :: pdfstate
  underline :: bool
  background :: pdfcolor
  ids :: "string list option"
  width :: rat
  words :: "string list"
  space_width :: rat
  spaces_width :: rat

definition char_width :: "fonts \<Rightarrow> pdfstate \<Rightarrow> char \<Rightarrow> rat result" where
  "char_width fonts st ch =
     (case fonts (font_family st) of
        None \<Rightarrow> Inl KeyError
      | Some fam \<Rightarrow>
          (case fam (font_mode st) of
             None \<Rightarrow> Inl KeyError
           | Some e \<Rightarrow>
               (case widths e ch of None \<Rightarrow> Inl KeyError
                | Some w \<Rightarrow> Inr (state_size st * w / 1000))))"

fun word_width :: "fonts \<Rightarrow> pdfstate \<Rightarrow> string \<Rightarrow> rat result" where
  "word_width fonts st [] = Inr 0"
| "word_width fonts st (ch # cs) =
     bind (char_width fonts st ch) (\<lambda>w. bind (word_width fonts st cs) (\<lambda>ws. Inr (w + ws)))"

definition get_char_width :: "fonts \<Rightarrow> line_part \<Rightarrow> char \<Rightarrow> rat result" where
  "get_char_width fonts p ch = char_width fonts (state p) ch"

definition get_word_width :: "fonts \<Rightarrow> line_part \<Rightarrow> string \<Rightarrow> rat result" where
  "get_word_width fonts p w = word_width fonts (state p) w"

text \<open>
  \<^verbatim>\<open>PDFTextLinePart.__init__\<close>. The test \<^verbatim>\<open>id is None\<close> of the source is on the
  builtin \<^verbatim>\<open>id\<close> and never holds, so \<^verbatim>\<open>ids\<close> is stored as given.
\<close>

definition PDFTextLinePart :: "style \<Rightarrow> fonts \<Rightarrow> string list option \<Rightarrow> line_part result" where
  "PDFTextLinePart st fonts ids0 =
     bind (PDFState st fonts) (\<lambda>sta.
     bind (char_width fonts sta CHR '' '') (\<lambda>sw.
       Inr \<lparr>part_style = st, state = sta, underline = st_u st, background = PDFColor (st_bg st),
            ids = ids0, width = 0, words = [], space_width = sw, spaces_width = 0\<rparr>))"

text \<open>
  \<^verbatim>\<open>pop_word(index)\<close>: \<^verbatim>\<open>index\<close> is \<^verbatim>\<open>None\<close> or \<^verbatim>\<open>-1\<close> at every call of the
  source, both of which remove the last token. With no token it returns \<^verbatim>\<open>None\<close>.
\<close>

definition pop_word :: "fonts \<Rightarrow> line_part \<Rightarrow> (string option \<times> line_part) result" where
  "pop_word fonts p =
     (if length (words p) > 0 then
        (let word = last (words p); p1 = p\<lparr>words := butlast (words p)\<rparr>
         in if word = '' '' then Inr (Some word, p1\<lparr>spaces_width := spaces_width p1 - space_width p1\<rparr>)
            else bind (get_word_width fonts p1 word)
                   (\<lambda>w. Inr (Some word, p1\<lparr>width := width p1 - w\<rparr>)))
      else Inr (None, p))"

definition part_add_word :: "fonts \<Rightarrow> line_part \<Rightarrow> string \<Rightarrow> line_part result" where
  "part_add_word fonts p word =
     (let p1 = p\<lparr>words := words p @ [word]\<rparr>
      in if word = '' '' then Inr (p1\<lparr>spaces_width := spaces_width p1 + space_width p1\<rparr>)
         else bind (get_word_width fonts p1 word) (\<lambda>w. Inr (p1\<lparr>width := width p1 + w\<rparr>)))"

definition current_width :: "line_part \<Rightarrow> rat \<Rightarrow> rat" where
  "current_width p factor = width p + spaces_width p * factor"

definition tentative_width :: "fonts \<Rightarrow> line_part \<Rightarrow> string \<Rightarrow> rat \<Rightarrow> rat result" where
  "tentative_width fonts p word factor =
     bind (if word = '' '' then Inr (space_width p * factor) else get_word_width fonts p word)
       (\<lambda>ww. Inr (current_width p factor + ww))"

section \<open>PDFTextLine\<close>

text \<open>
  A line owns its pending line through \<^verbatim>\<open>next_line\<close>. No part object is ever held by
  two lines (\<^verbatim>\<open>add_accumulated\<close> moves the pending parts and installs a fresh part, the
  \<^verbatim>\<open>finished\<close> branch moves the pending list to a new line), so lines are values.
  \<^verbatim>\<open>justify_min_factor\<close> is the constant 0.7 of the constructor.
\<close>

datatype text_line = TextLine
  (max_width: rat)
  (line_parts: "line_part list")
  (text_align: string)
  (line_height: rat)
  (top_margin: rat)
  (next_line: "text_line option")
  (is_last_word_space: bool)
  (firstWordAdded: bool)
  (started: bool)

definition PARAGRAPH_DEFAULTS_text_align :: string where
  "PARAGRAPH_DEFAULTS_text_align = ''l''"

definition PARAGRAPH_DEFAULTS_line_height :: rat where
  "PARAGRAPH_DEFAULTS_line_height = 11/10"

definition PARAGRAPH_DEFAULTS_width :: rat where
  "PARAGRAPH_DEFAULTS_width = 200"

definition PARAGRAPH_DEFAULTS_height :: rat where
  "PARAGRAPH_DEFAULTS_height = 200"

text \<open>
  Modelled from the spec: \<^verbatim>\<open>default\<close> of \<^verbatim>\<open>utils\<close> (not among the sources), which
  supplies the default of a paragraph setting that was not given: the value, or the
  fallback when the value is \<^verbatim>\<open>None\<close>.
\<close>

definition default :: "'a option \<Rightarrow> 'a \<Rightarrow> 'a" where
  "default v d = (case v of None \<Rightarrow> d | Some x \<Rightarrow> x)"

definition PDFTextLine :: "rat \<Rightarrow> string option \<Rightarrow> rat option \<Rightarrow> rat \<Rightarrow> text_line" where
  "PDFTextLine mw ta lh tm =
     TextLine mw [] (default ta PARAGRAPH_DEFAULTS_text_align)
       (default lh PARAGRAPH_DEFAULTS_line_height) tm None True False False"

definition justify_min_factor :: rat where
  "justify_min_factor = 7/10"

fun height_loop :: "line_part list \<Rightarrow> rat \<Rightarrow> rat \<Rightarrow> rat \<times> rat" where
  "height_loop [] tp h = (tp, h)"
| "height_loop (p # ps) tp h =
     height_loop ps
       (if rise (state p) > 0 \<and> rise (state p) > tp then rise (state p) else tp)
       (if state_size (state p) > h then state_size (state p) else h)"

definition height :: "text_line \<Rightarrow> rat" where
  "height l = (case height_loop (line_parts l) 0 0 of (tp, h) \<Rightarrow> h + top_margin l + tp)"

definition factor :: "text_line \<Rightarrow> rat" where
  "factor l = (if text_align l \<noteq> ''j'' then 1 else justify_min_factor)"

fun bottom_loop :: "line_part list \<Rightarrow> rat \<Rightarrow> rat" where
  "bottom_loop [] bt = bt"
| "bottom_loop (p # ps) bt =
     bottom_loop ps (if rise (state p) < 0 \<and> - rise (state p) > bt then - rise (state p) else bt)"

definition bottom :: "text_line \<Rightarrow> rat" where
  "bottom l = bottom_loop (line_parts l) 0"

fun widths_loop :: "line_part list \<Rightarrow> rat \<Rightarrow> rat \<Rightarrow> rat \<times> rat" where
  "widths_loop [] ww sw = (ww, sw)"
| "widths_loop (p # ps) ww sw = widths_loop ps (ww + width p) (sw + spaces_width p)"

definition get_widths :: "text_line \<Rightarrow> rat \<times> rat" where
  "get_widths l = widths_loop (line_parts l) 0 0"

definition min_width :: "text_line \<Rightarrow> rat" where
  "min_width l = (case get_widths l of (ww, sw) \<Rightarrow> ww + sw * factor l)"

text \<open>Replacing the fields of a line that the methods assign.\<close>

definition set_line_parts :: "line_part list \<Rightarrow> text_line \<Rightarrow> text_line" where
  "set_line_parts ps l =
     TextLine (max_width l) ps (text_align l) (line_height l) (top_margin l) (next_line l)
       (is_last_word_space l) (firstWordAdded l) (started l)"

definition set_next_line :: "text_line option \<Rightarrow> text_line \<Rightarrow> text_line" where
  "set_next_line n l =
     TextLine (max_width l) (line_parts l) (text_align l) (line_height l) (top_margin l) n
       (is_last_word_space l) (firstWordAdded l) (started l)"

definition set_top_margin :: "rat \<Rightarrow> text_line \<Rightarrow> text_line" where
  "set_top_margin tm l =
     TextLine (max_width l) (line_parts l) (text_align l) (line_height l) tm (next_line l)
       (is_last_word_space l) (firstWordAdded l) (started l)"

definition set_is_last_word_space :: "bool \<Rightarrow> text_line \<Rightarrow> text_line" where
  "set_is_last_word_space v l =
     TextLine (max_width l) (line_parts l) (text_align l) (line_height l) (top_margin l)
       (next_line l) v (firstWordAdded l) (started l)"

definition set_firstWordAdded :: "bool \<Rightarrow> text_line \<Rightarrow> text_line" where
  "set_firstWordAdded v l =
     TextLine (max_width l) (line_parts l) (text_align l) (line_height l) (top_margin l)
       (next_line l) (is_last_word_space l) v (started l)"

definition set_started :: "bool \<Rightarrow> text_line \<Rightarrow> text_line" where
  "set_started v l =
     TextLine (max_width l) (line_parts l) (text_align l) (line_height l) (top_margin l)
       (next_line l) (is_last_word_space l) (firstWordAdded l) v"

text \<open>
  \<^verbatim>\<open>add_line_part\<close>: creates the pending line when there is none, builds the part and
  appends it to the pending line. Returns the part and the updated line.
\<close>

definition add_line_part ::
  "fonts \<Rightarrow> text_line \<Rightarrow> style \<Rightarrow> string list option \<Rightarrow> (line_part \<times> text_line) result" where
  "add_line_part fonts l st ids0 =
     (let nl = (case next_line l of
                  None \<Rightarrow> PDFTextLine (max_width l) (Some (text_align l)) (Some (line_height l)) 0
                | Some n \<Rightarrow> n)
      in bind (PDFTextLinePart st fonts ids0) (\<lambda>lp.
           Inr (lp, set_next_line (Some (set_line_parts (line_parts nl @ [lp]) nl)) l)))"

text \<open>
  \<^verbatim>\<open>add_accumulated\<close>: the pending parts join the line, the last part receives a
  space, and the pending line restarts with one empty part of the same style.
  \<^verbatim>\<open>self.line_parts[-1]\<close> raises on an empty list.
\<close>

definition add_accumulated :: "fonts \<Rightarrow> text_line \<Rightarrow> text_line result" where
  "add_accumulated fonts l =
     (case next_line l of
        None \<Rightarrow> Inl AttributeError
      | Some nl \<Rightarrow>
          (let ps = line_parts l @ line_parts nl
           in if ps = [] then Inl IndexError
              else bind (part_add_word fonts (last ps) '' '') (\<lambda>last_part.
                   bind (PDFTextLinePart (part_style last_part) fonts (ids last_part)) (\<lambda>fresh.
                     Inr (set_next_line (Some (set_line_parts [fresh] nl))
                            (set_line_parts (butlast ps @ [last_part]) l))))))"

text \<open>
  Python's \<^verbatim>\<open>str.isspace\<close>: non-empty and every character is whitespace. Characters
  are read as Latin-1 code points (the stream is encoded as Latin-1).
\<close>

definition is_ws_char :: "char \<Rightarrow> bool" where
  "is_ws_char ch =
     (let n = of_char ch :: nat
      in (9 \<le> n \<and> n \<le> 13) \<or> (28 \<le> n \<and> n \<le> 32) \<or> n = 133 \<or> n = 160)"

definition isspace :: "string \<Rightarrow> bool" where
  "isspace w = (w \<noteq> [] \<and> list_all is_ws_char w)"

datatype status = Added | Ignored | Preadded | Finished text_line

text \<open>
  \<^verbatim>\<open>PDFTextLine.add_word(word, new_width)\<close>. Returns the status and the line after the
  call; \<open>Finished nl\<close> carries \<^verbatim>\<open>new_line\<close>, which is also the line's pending line.
\<close>

definition add_word_to_pending :: "fonts \<Rightarrow> text_line \<Rightarrow> string \<Rightarrow> text_line result" where
  "add_word_to_pending fonts nl word =
     (if line_parts nl = [] then Inl IndexError
      else bind (part_add_word fonts (last (line_parts nl)) word) (\<lambda>p.
             Inr (set_line_parts (butlast (line_parts nl) @ [p]) nl)))"

definition finish_line :: "fonts \<Rightarrow> text_line \<Rightarrow> text_line \<Rightarrow> rat \<Rightarrow> (status \<times> text_line) result" where
  "finish_line fonts l nl new_width =
     (if line_parts l = [] then Inl IndexError
      else
        bind (let lp = last (line_parts l)
              in if length (words lp) \<noteq> 0 \<and> last (words lp) = '' ''
                 then bind (pop_word fonts lp) (\<lambda>(w, lp1).
                        Inr (set_line_parts (butlast (line_parts l) @ [lp1]) l))
                 else Inr l)
          (\<lambda>l1.
             let nl1 = set_top_margin (bottom l1) (set_firstWordAdded True nl);
                 nnl = set_line_parts (line_parts nl1)
                         (PDFTextLine new_width (Some (text_align l1)) (Some (line_height l1)) 0);
                 nl2 = set_line_parts [] (set_next_line (Some nnl) nl1)
             in Inr (Finished nl2, set_next_line (Some nl2) l1)))"

definition add_word :: "fonts \<Rightarrow> text_line \<Rightarrow> string \<Rightarrow> rat \<Rightarrow> (status \<times> text_line) result" where
  "add_word fonts l word new_width =
     (case next_line l of
        None \<Rightarrow> Inl Exception
      | Some nl \<Rightarrow>
          if \<not> started l then
            if isspace word then
              if firstWordAdded l then
                bind (add_accumulated fonts (set_started True l)) (\<lambda>l1. Inr (Added, l1))
              else Inr (Ignored, l)
            else
              bind (add_word_to_pending fonts nl word) (\<lambda>nl1.
                Inr (Added, set_next_line (Some nl1) (set_firstWordAdded True l)))
          else
            if isspace word then
              if is_last_word_space l then Inr (Ignored, l)
              else bind (add_accumulated fonts l) (\<lambda>l1. Inr (Added, l1))
            else
              bind (add_word_to_pending fonts nl word) (\<lambda>nl1.
                let l1 = set_next_line (Some nl1) (set_is_last_word_space False l)
                in if min_width l1 + min_width nl1 < max_width l1 then Inr (Preadded, l1)
                   else finish_line fonts l1 nl1 new_width))"

section \<open>PDFTextBase\<close>

text \<open>
  An element of \<^verbatim>\<open>content\<close> is a dictionary with the optional keys \<^verbatim>\<open>type\<close>,
  \<^verbatim>\<open>text\<close>, \<^verbatim>\<open>style\<close> and \<^verbatim>\<open>ids\<close>, or something that is not a dictionary. The
  text is a string, a list of tokens, or neither.
\<close>

datatype text_val = TStr string | TWords "string list" | TOther

record part =
  part_type :: "string option"
  part_text :: text_val
  part_patch :: style_patch
  part_ids :: "string list option"

datatype elem = PDict part | PNonDict

datatype content_arg = CStr string | CList "elem list" | COther

datatype list_style_val = LSNone | LSStr string | LSDict style_patch | LSOther

text \<open>
  The object state. The fields from \<open>tb_started\<close> on are the ones \<^verbatim>\<open>init\<close> assigns;
  \<open>list_state\<close> exists only after \<^verbatim>\<open>setup_list\<close>. \<open>y_cur\<close> is \<^verbatim>\<open>self.y_\<close>; the fields
  with the prefix \<open>tb_\<close> are the attributes of that name without it. \<open>tb_fonts\<close> is the
  table after \<^verbatim>\<open>STANDARD_FONTS if fonts is None else fonts\<close>.

  \<^verbatim>\<open>self.lines\<close> is a list of line objects, not of copies. The line objects of a run
  form a chain: whenever \<^verbatim>\<open>self.current_line\<close> is replaced, the new current line is the
  \<^verbatim>\<open>next_line\<close> of the old one. \<open>retired\<close> holds the lines that were the current line
  before, oldest first, and \<open>current_line\<close> ends the chain. An entry of \<open>lines\<close> is the
  position of its object in the chain, so a line that is committed and then filled
  further (after a \<^verbatim>\<open>br\<close> part) is seen as it is now. The field \<^verbatim>\<open>next_line\<close> of a
  retired line is read from the chain, not from the value kept in \<open>retired\<close>.
\<close>

record flow =
  tb_fonts :: fonts
  used_fonts :: "(string \<times> string) set"
  tb_width :: rat
  tb_height :: rat
  tb_x :: rat
  tb_y :: rat
  indent :: rat
  tb_text_align :: string
  tb_line_height :: rat
  list_text :: "string option"
  list_indent :: "rat option"
  list_style :: list_style_val
  last_part_index :: nat
  last_word_index :: nat
  content :: "elem list"
  finished :: bool
  is_first_line :: bool
  correct_indent :: bool
  list_setup_done :: bool
  tb_started :: bool
  lines :: "nat list"
  retired :: "text_line list"
  tb_text :: "tok list"
  graphics :: "tok list"
  tb_ids :: "string \<rightharpoonup> rat list list"
  current_height :: rat
  current_line_used_fonts :: "(string \<times> string) set"
  current_line :: text_line
  last_indent :: rat
  last_state :: "pdfstate option"
  last_factor :: "rat option"
  last_fill :: "pdfcolor option"
  last_color :: "pdfcolor option"
  last_stroke_width :: "rat option"
  y_cur :: rat
  list_state :: "pdfstate option"

text \<open>A string or \<^verbatim>\<open>None\<close> used as a condition.\<close>

definition truthy :: "string option \<Rightarrow> bool" where
  "truthy v = (case v of None \<Rightarrow> False | Some t \<Rightarrow> t \<noteq> [])"

text \<open>Arithmetic on \<^verbatim>\<open>list_indent\<close>, which may be \<^verbatim>\<open>None\<close>.\<close>

definition num :: "rat option \<Rightarrow> rat result" where
  "num v = (case v of None \<Rightarrow> Inl TypeError | Some n \<Rightarrow> Inr n)"

text \<open>
  \<^verbatim>\<open>PDFTextBase.__init__\<close>. The fields that only \<^verbatim>\<open>init\<close> creates are given the
  values \<^verbatim>\<open>init\<close> assigns (with a zero line width); \<^verbatim>\<open>run\<close> calls \<^verbatim>\<open>init\<close> before
  anything reads them.
\<close>

definition PDFTextBase ::
  "content_arg \<Rightarrow> rat option \<Rightarrow> rat option \<Rightarrow> rat \<Rightarrow> rat \<Rightarrow> fonts \<Rightarrow> string option \<Rightarrow>
   rat option \<Rightarrow> rat \<Rightarrow> string option \<Rightarrow> rat option \<Rightarrow> list_style_val \<Rightarrow> flow result" where
  "PDFTextBase cont w h x0 y0 fonts ta lh ind ltext lindent lstyle =
     bind (case cont of
             CStr t \<Rightarrow> Inr [PDict \<lparr>part_type = None, part_text = TStr t,
                                  part_patch = empty_patch, part_ids = None\<rparr>]
           | CList es \<Rightarrow> Inr es
           | COther \<Rightarrow> Inl TypeError)
       (\<lambda>es. Inr
          \<lparr>tb_fonts = fonts, used_fonts = {},
           tb_width = default w PARAGRAPH_DEFAULTS_width,
           tb_height = max 0 (default h PARAGRAPH_DEFAULTS_height),
           tb_x = x0, tb_y = y0, indent = ind,
           tb_text_align = default ta PARAGRAPH_DEFAULTS_text_align,
           tb_line_height = default lh PARAGRAPH_DEFAULTS_line_height,
           list_text = ltext, list_indent = lindent, list_style = lstyle,
           last_part_index = 0, last_word_index = 0, content = es, finished = False,
           is_first_line = True, correct_indent = True, list_setup_done = False,
           tb_started = False, lines = [], retired = [], tb_text = [], graphics = [], tb_ids = Map.empty,
           current_height = 0, current_line_used_fonts = {},
           current_line = PDFTextLine 0 None None 0,
           last_indent = 0, last_state = None, last_factor = None, last_fill = None,
           last_color = None, last_stroke_width = None, y_cur = 0, list_state = None\<rparr>)"

definition init :: "flow \<Rightarrow> flow result" where
  "init fl =
     bind (num (list_indent fl)) (\<lambda>li.
       let line_width = tb_width fl - li;
           line_width = (if is_first_line fl then line_width - indent fl else line_width)
       in Inr (fl\<lparr>tb_started := False, lines := [], retired := [], tb_text := [], graphics := [],
                  tb_ids := Map.empty, current_height := 0, current_line_used_fonts := {},
                  current_line := PDFTextLine line_width (Some (tb_text_align fl))
                                    (Some (tb_line_height fl)) 0,
                  last_indent := 0, last_state := None, last_factor := None,
                  last_fill := None, last_color := None, last_stroke_width := None,
                  y_cur := 0\<rparr>))"

subsection \<open>Emission\<close>

definition output_text :: "flow \<Rightarrow> line_part \<Rightarrow> rat \<Rightarrow> (tok list \<times> flow) result" where
  "output_text fl p fac =
     bind (compare (tb_fonts fl) (state p) (last_state fl)) (\<lambda>stream.
       let fl1 = fl\<lparr>last_state := Some (state p)\<rparr>;
           tw = round3 (space_width p * (fac - 1));
           (stream1, fl2) =
             (if last_factor fl1 \<noteq> Some tw
              then (stream @ [Lit '' '', Num tw, Lit '' Tw''], fl1\<lparr>last_factor := Some tw\<rparr>)
              else (stream, fl1));
           txt = concat (words p);
           stream2 = (if txt \<noteq> [] then stream1 @ [Lit '' ('', Lit txt, Lit '')Tj'']
                      else stream1)
       in Inr (stream2, fl2))"

definition output_graphics :: "flow \<Rightarrow> line_part \<Rightarrow> rat \<Rightarrow> rat \<Rightarrow> rat \<Rightarrow> tok list \<times> flow" where
  "output_graphics fl p x0 y0 part_width =
     (let (g1, fl1) =
            (if color (background p) \<noteq> None then
               (let (g, fl') = (if Some (background p) \<noteq> last_fill fl
                                then ([Lit '' '', Col (background p)],
                                      fl\<lparr>last_fill := Some (background p)\<rparr>)
                                else ([], fl))
                in (g @ [Lit '' '', Num (round3 x0), Lit '' '',
                         Num (round3 (y0 + rise (state p) - state_size (state p) * (1/4))), Lit '' '',
                         Num (round3 part_width), Lit '' '', Num (round3 (state_size (state p))),
                         Lit '' re F''], fl'))
             else ([], fl))
      in if underline p then
           (let col = PDFColor_stroke (state_color (state p));
                sw = state_size (state p) * (1/10);
                y_u = round3 (y0 + rise (state p) - sw);
                (g2, fl2) = (if Some col \<noteq> last_color fl1
                             then (g1 @ [Lit '' '', Col col], fl1\<lparr>last_color := Some col\<rparr>)
                             else (g1, fl1));
                (g3, fl3) = (if Some sw \<noteq> last_stroke_width fl2
                             then (g2 @ [Lit '' '', Num (round3 sw), Lit '' w''],
                                   fl2\<lparr>last_stroke_width := Some sw\<rparr>)
                             else (g2, fl2))
            in (g3 @ [Lit '' '', Num (round3 x0), Lit '' '', Num y_u, Lit '' m '',
                      Num (round3 (x0 + part_width)), Lit '' '', Num y_u, Lit '' l S''], fl3))
         else (g1, fl1))"

fun add_boxes ::
  "(string \<rightharpoonup> rat list list) \<Rightarrow> string list \<Rightarrow> rat list \<Rightarrow> (string \<rightharpoonup> rat list list)" where
  "add_boxes m [] box = m"
| "add_boxes m (k # ks) box =
     add_boxes (m(k \<mapsto> (case m k of None \<Rightarrow> [] | Some bs \<Rightarrow> bs) @ [box])) ks box"

text \<open>The loop over the parts of a line at the end of \<^verbatim>\<open>add_line_to_stream\<close>.\<close>

fun emit_parts :: "flow \<Rightarrow> line_part list \<Rightarrow> rat \<Rightarrow> rat \<Rightarrow> flow result" where
  "emit_parts fl [] fac x0 = Inr fl"
| "emit_parts fl (p # ps) fac x0 =
     bind (output_text fl p fac) (\<lambda>(stream, fl1).
       let fl2 = fl1\<lparr>tb_text := tb_text fl1 @ stream\<rparr>;
           part_width = current_width p fac;
           part_size = round3 (state_size (state p));
           fl3 = (case ids p of
                    None \<Rightarrow> fl2
                  | Some ks \<Rightarrow>
                      fl2\<lparr>tb_ids := add_boxes (tb_ids fl2) ks
                         [round3 x0, round3 (y_cur fl2 + rise (state p) - part_size * (1/4)),
                          round3 (x0 + part_width), round3 part_size]\<rparr>);
           (g, fl4) = output_graphics fl3 p x0 (y_cur fl3) part_width
       in emit_parts (fl4\<lparr>graphics := graphics fl4 @ g\<rparr>) ps fac (x0 + part_width))"

text \<open>
  The justification factor of \<^verbatim>\<open>add_line_to_stream\<close>:
  \<^verbatim>\<open>factor = 1 if ignore_factor else factor_width / spaces_width\<close>, where
  \<^verbatim>\<open>factor_width\<close> loses the indent on the first line of the block.
\<close>

definition ignore_factor :: "flow \<Rightarrow> text_line \<Rightarrow> bool \<Rightarrow> bool" where
  "ignore_factor fl l is_last =
     (tb_text_align fl \<noteq> ''j'' \<or> is_last \<or> snd (get_widths l) = 0)"

definition factor_width :: "flow \<Rightarrow> text_line \<Rightarrow> rat result" where
  "factor_width fl l =
     bind (num (list_indent fl)) (\<lambda>li.
       let fw = tb_width fl - li - fst (get_widths l)
       in Inr (if \<not> tb_started fl \<and> is_first_line fl then fw - indent fl else fw))"

definition emitted_factor :: "flow \<Rightarrow> text_line \<Rightarrow> bool \<Rightarrow> rat result" where
  "emitted_factor fl l is_last =
     bind (factor_width fl l) (\<lambda>fw.
       Inr (if ignore_factor fl l is_last then 1 else fw / snd (get_widths l)))"

text \<open>
  The positioning part of \<^verbatim>\<open>add_line_to_stream\<close>, up to \<^verbatim>\<open>self.y_ -= full_line_height\<close>.
  Returns the starting \<^verbatim>\<open>x\<close> and the state.
\<close>

definition position_first :: "flow \<Rightarrow> rat \<Rightarrow> rat \<Rightarrow> (rat \<times> rat \<times> flow) result" where
  "position_first fl x0 flh =
     (let fl1 = fl\<lparr>tb_started := True\<rparr>
      in if is_first_line fl1 then
           (let fl2 = fl1\<lparr>is_first_line := False\<rparr>
            in if truthy (list_text fl2) then
                 (case list_state fl2 of
                    None \<Rightarrow> Inl AttributeError
                  | Some ls \<Rightarrow>
                      let flh1 = (if state_size ls > flh then state_size ls else flh)
                      in bind (compare (tb_fonts fl2) ls (last_state fl2)) (\<lambda>cmp.
                         bind (num (list_indent fl2)) (\<lambda>li.
                           Inr (x0, flh1,
                                fl2\<lparr>tb_text := tb_text fl2 @
                                  [Lit '' 0 -'', Num (round3 flh1), Lit '' Td''] @ cmp @
                                  [Lit '' ('', Lit (default (list_text fl2) []),
                                   Lit '')Tj '', Num (li + indent fl2),
                                   Lit '' 0 Td'']\<rparr>))))
               else
                 Inr (x0, flh,
                      fl2\<lparr>tb_text := tb_text fl2 @
                        [Lit '' '', Num (round3 (indent fl2)), Lit '' -'',
                         Num (round3 flh), Lit '' Td'']\<rparr>))
         else
           bind (if truthy (list_text fl1) then num (list_indent fl1) else Inr 0)
             (\<lambda>first_indent.
                Inr (x0, flh,
                     fl1\<lparr>tb_text := tb_text fl1 @
                       [Lit '' '', Num (round3 first_indent), Lit '' -'',
                        Num (round3 flh), Lit '' Td'']\<rparr>)))"

definition position_next :: "flow \<Rightarrow> text_line \<Rightarrow> rat \<Rightarrow> rat \<Rightarrow> rat \<times> rat \<times> flow" where
  "position_next fl l x0 flh =
     (let (words_width, spaces_width) = get_widths l;
          (x1, adjusted_indent, fl1) =
            (if tb_text_align fl = ''r'' \<or> tb_text_align fl = ''c'' then
               (let ind0 = tb_width fl - words_width - spaces_width;
                    ind1 = (if tb_text_align fl = ''c'' then ind0 / 2 else ind0)
                in (x0 + ind1, ind1 - last_indent fl, fl\<lparr>last_indent := ind1\<rparr>))
             else (x0, 0, fl));
          (adjusted_indent1, fl2) =
            (if correct_indent fl1
             then (adjusted_indent - indent fl1, fl1\<lparr>correct_indent := False\<rparr>)
             else (adjusted_indent, fl1));
          flh1 = flh * tb_line_height fl2
      in (x1, flh1,
          fl2\<lparr>tb_text := tb_text fl2 @
            [Lit '' '', Num (round3 adjusted_indent1), Lit '' -'',
             Num (round3 flh1), Lit '' Td'']\<rparr>))"

definition position_line :: "flow \<Rightarrow> text_line \<Rightarrow> (rat \<times> flow) result" where
  "position_line fl l =
     bind (if truthy (list_text fl) then num (list_indent fl) else Inr 0) (\<lambda>x0.
     bind (if \<not> tb_started fl then position_first fl x0 (height l)
           else Inr (position_next fl l x0 (height l)))
       (\<lambda>(x1, flh1, fl3). Inr (x1, fl3\<lparr>y_cur := y_cur fl3 - flh1\<rparr>)))"

definition add_line_to_stream :: "flow \<Rightarrow> text_line \<Rightarrow> bool \<Rightarrow> flow result" where
  "add_line_to_stream fl l is_last =
     bind (emitted_factor fl l is_last) (\<lambda>fac.
     bind (position_line fl l) (\<lambda>(x0, fl1).
       emit_parts fl1 (line_parts l) fac x0))"

text \<open>
  \<^verbatim>\<open>add_current_line(is_last)\<close>. The call of \<^verbatim>\<open>add_line_to_stream\<close> passes the line
  only, so the emitter's \<^verbatim>\<open>is_last\<close> keeps its default \<^verbatim>\<open>False\<close>.
\<close>

definition add_current_line :: "flow \<Rightarrow> bool \<Rightarrow> (bool \<times> flow) result" where
  "add_current_line fl is_last =
     (let lh = height (current_line fl) * tb_line_height fl
      in if lh + current_height fl > tb_height fl then Inr (False, fl)
         else
           (let fl1 = fl\<lparr>current_height := current_height fl + lh,
                         lines := lines fl @ [length (retired fl)],
                         used_fonts := used_fonts fl \<union> current_line_used_fonts fl,
                         current_line_used_fonts := {}\<rparr>
            in bind (add_line_to_stream fl1 (current_line fl1) False) (\<lambda>fl2. Inr (True, fl2))))"

text \<open>
  The line objects of the chain as they are in a state, and \<^verbatim>\<open>self.lines\<close> read
  through it.
\<close>

fun chain :: "text_line list \<Rightarrow> text_line \<Rightarrow> text_line list" where
  "chain [] cur = [cur]"
| "chain (l # ls) cur =
     (case chain ls cur of
        [] \<Rightarrow> [l]
      | n # rest \<Rightarrow> set_next_line (Some n) l # n # rest)"

definition committed_lines :: "flow \<Rightarrow> text_line list" where
  "committed_lines fl = map (\<lambda>k. chain (retired fl) (current_line fl) ! k) (lines fl)"

subsection \<open>Feeding the content\<close>

text \<open>
  \<^verbatim>\<open>re.split('( +)', words)\<close> cuts a string into its maximal runs of spaces and of other
  characters; \<^verbatim>\<open>add_part\<close> drops the empty pieces and turns every piece that
  \<^verbatim>\<open>isspace\<close> into a single space.
\<close>

fun runs :: "string \<Rightarrow> string list" where
  "runs [] = []"
| "runs (ch # cs) =
     (case runs cs of
        [] \<Rightarrow> [[ch]]
      | w # ws \<Rightarrow>
          (case w of
             [] \<Rightarrow> [ch] # ws
           | d # _ \<Rightarrow> if (ch = CHR '' '') = (d = CHR '' '') then (ch # w) # ws
                       else [ch] # w # ws))"

definition tokens :: "string \<Rightarrow> string list" where
  "tokens t = map (\<lambda>w. if isspace w then '' '' else w) (runs t)"

text \<open>
  \<^verbatim>\<open>setup_list\<close>. \<^verbatim>\<open>parse_style_str\<close> belongs to \<^verbatim>\<open>utils\<close>, which is not among the
  sources: it is the argument \<open>pss\<close>.
\<close>

definition setup_list :: "(string \<Rightarrow> fonts \<Rightarrow> style_patch result) \<Rightarrow> flow \<Rightarrow> flow result" where
  "setup_list pss fl =
     (case next_line (current_line fl) of
        None \<Rightarrow> Inl AttributeError
      | Some nl \<Rightarrow>
          (case line_parts nl of
             [] \<Rightarrow> Inl IndexError
           | p0 # _ \<Rightarrow>
               bind (case list_style fl of
                       LSNone \<Rightarrow> Inr empty_patch
                     | LSStr t \<Rightarrow> pss t (tb_fonts fl)
                     | LSDict d \<Rightarrow> Inr d
                     | LSOther \<Rightarrow> Inl TypeError) (\<lambda>d.
               bind (PDFTextLinePart (style_update (part_style p0) d) (tb_fonts fl) None) (\<lambda>lp.
                 let fl1 = fl\<lparr>list_style := LSDict d,
                               current_line_used_fonts :=
                                 insert (font_family (state lp), font_mode (state lp))
                                   (current_line_used_fonts fl)\<rparr>
                 in bind (case list_indent fl1 of
                            None \<Rightarrow>
                              bind (get_word_width (tb_fonts fl1) lp (default (list_text fl1) []))
                                (\<lambda>w. Inr (fl1\<lparr>list_indent := Some w\<rparr>))
                          | Some _ \<Rightarrow> Inr fl1)
                      (\<lambda>fl2. Inr (fl2\<lparr>list_state := Some (state lp)\<rparr>))))))"

text \<open>
  The loop over the words in \<^verbatim>\<open>add_part\<close>. The range is fixed when the loop starts, so
  the loop runs over the pairs of an index and its word. \<open>n_words\<close> is \<^verbatim>\<open>len(words)\<close>.
\<close>

fun add_part_loop :: "flow \<Rightarrow> nat \<Rightarrow> nat \<Rightarrow> (nat \<times> string) list \<Rightarrow> (bool \<times> flow) result" where
  "add_part_loop fl part_index n_words [] = Inr (True, fl)"
| "add_part_loop fl part_index n_words ((word_index, word) # rest) =
     bind (num (list_indent fl)) (\<lambda>li.
     bind (add_word (tb_fonts fl) (current_line fl) word (tb_width fl - li)) (\<lambda>(ans, l1).
       let fl1 = fl\<lparr>current_line := l1\<rparr>
       in case ans of
            Added \<Rightarrow>
              add_part_loop (fl1\<lparr>last_part_index := part_index + 1, last_word_index := 0\<rparr>)
                part_index n_words rest
          | Finished new_line \<Rightarrow>
              bind (add_current_line fl1
                      (part_index + 1 = length (content fl1) \<and> word_index + 1 = n_words))
                (\<lambda>(continue, fl2).
                   let fl3 = fl2\<lparr>retired := retired fl2 @ [current_line fl2],
                                     current_line := new_line\<rparr>
                   in if \<not> continue then Inr (False, fl3)
                      else add_part_loop fl3 part_index n_words rest)
          | _ \<Rightarrow> add_part_loop fl1 part_index n_words rest))"

text \<open>
  \<^verbatim>\<open>add_part(part, part_index)\<close>. A string text is tokenised and stored back into the
  part. The result \<^verbatim>\<open>'continue'\<close> of the source is a true value for the caller.
\<close>

definition add_part ::
  "(string \<Rightarrow> fonts \<Rightarrow> style_patch result) \<Rightarrow> flow \<Rightarrow> part \<Rightarrow> nat \<Rightarrow> (bool \<times> flow) result" where
  "add_part pss fl pt part_index =
     (if part_text pt = TOther then Inr (True, fl)
      else
        bind (add_line_part (tb_fonts fl) (current_line fl)
                (style_update TEXT_DEFAULTS (part_patch pt)) (part_ids pt)) (\<lambda>(new_line_part, l1).
        bind (let fl1 = fl\<lparr>current_line := l1\<rparr>
              in if \<not> list_setup_done fl1 \<and> truthy (list_text fl1)
                 then setup_list pss (fl1\<lparr>list_setup_done := True\<rparr>)
                 else Inr fl1) (\<lambda>fl2.
          let fl3 = fl2\<lparr>current_line_used_fonts :=
                           insert (font_family (state new_line_part),
                                   font_mode (state new_line_part))
                             (current_line_used_fonts fl2)\<rparr>;
              ws = (case part_text pt of TStr t \<Rightarrow> tokens t | TWords ws \<Rightarrow> ws | TOther \<Rightarrow> []);
              fl4 = (case part_text pt of
                       TStr t \<Rightarrow>
                         fl3\<lparr>content := (content fl3)
                               [part_index := PDict (pt\<lparr>part_text := TWords ws\<rparr>)]\<rparr>
                     | _ \<Rightarrow> fl3)
          in add_part_loop fl4 part_index (length ws)
               (zip [last_word_index fl4..<length ws] (drop (last_word_index fl4) ws)))))"

text \<open>
  The loop of \<^verbatim>\<open>run\<close> over \<^verbatim>\<open>range(self.last_part_index, len(self.content))\<close>, the
  range being fixed when the loop starts. The result is \<open>None\<close> when the loop ends
  normally and \<open>Some v\<close> when \<^verbatim>\<open>run\<close> returns \<open>v\<close> from inside the loop.
\<close>

fun run_loop ::
  "(string \<Rightarrow> fonts \<Rightarrow> style_patch result) \<Rightarrow> flow \<Rightarrow> nat list \<Rightarrow> (bool option \<times> flow) result" where
  "run_loop pss fl [] = Inr (None, fl)"
| "run_loop pss fl (part_index # rest) =
     (case content fl ! part_index of
        PNonDict \<Rightarrow> Inl TypeError
      | PDict pt \<Rightarrow>
          (case part_type pt of
             Some ty \<Rightarrow>
               if ty = ''br'' then
                 bind (add_current_line fl False) (\<lambda>(continue, fl1).
                   if continue
                   then run_loop pss (fl1\<lparr>last_part_index := part_index + 1,
                                           last_word_index := 0\<rparr>) rest
                   else Inr (Some False, fl1))
               else run_loop pss fl rest
           | None \<Rightarrow>
               bind (add_part pss fl pt part_index) (\<lambda>(continue, fl1).
                 if \<not> continue then Inr (Some False, fl1) else run_loop pss fl1 rest)))"

text \<open>\<^verbatim>\<open>run\<close>: the value returned and the state afterwards.\<close>

definition run :: "(string \<Rightarrow> fonts \<Rightarrow> style_patch result) \<Rightarrow> flow \<Rightarrow> (bool \<times> flow) result" where
  "run pss fl0 =
     bind (init fl0) (\<lambda>fl.
     bind (run_loop pss fl [last_part_index fl..<length (content fl)]) (\<lambda>(ret, fl1).
       case ret of
         Some v \<Rightarrow> Inr (v, fl1)
       | None \<Rightarrow>
           bind (add_current_line fl1 True) (\<lambda>(continue, fl2).
             let fl3 = (if continue then fl2\<lparr>finished := True\<rparr> else fl2)
             in Inr (finished fl3, fl3))))"

section \<open>PDFText\<close>

text \<open>
  The nested input of \<^verbatim>\<open>PDFText\<close>: strings, lists and dictionaries (their items in
  insertion order, keys distinct), \<^verbatim>\<open>None\<close>, and any other value.
\<close>

datatype pyval = VStr string | VList "pyval list" | VDict "(string \<times> pyval) list"
  | VNone | VOther

text \<open>A dictionary \<^verbatim>\<open>{'style': ..., 'text': ..., 'ids': ...}\<close> of \<^verbatim>\<open>self.content\<close>.\<close>

record text_part =
  tp_style :: style
  tp_text :: string
  tp_ids :: "string list"

text \<open>
  What the parse takes from outside: \<^verbatim>\<open>parse_style_str\<close> and \<^verbatim>\<open>process_style\<close> of
  \<^verbatim>\<open>utils\<close> (not among the sources; \<^verbatim>\<open>process_style\<close> is given the value of
  \<^verbatim>\<open>content.get('style')\<close>), and \<^verbatim>\<open>self.pdf.context\<close>, absent when \<^verbatim>\<open>pdf\<close> is
  \<^verbatim>\<open>None\<close>.
\<close>

record helpers =
  parse_style_str :: "string \<Rightarrow> fonts \<Rightarrow> style_patch result"
  process_style :: "pyval \<Rightarrow> style_patch result"
  pdf_context :: "(string \<rightharpoonup> string) option"

definition dict_get :: "(string \<times> pyval) list \<Rightarrow> string \<Rightarrow> pyval" where
  "dict_get kvs k = (case map_of kvs k of None \<Rightarrow> VNone | Some v \<Rightarrow> v)"

text \<open>\<^verbatim>\<open>list.remove\<close> takes out the first equal element and raises when there is none.\<close>

definition list_remove :: "'a \<Rightarrow> 'a list \<Rightarrow> 'a list result" where
  "list_remove x xs = (if x \<in> set xs then Inr (remove1 x xs) else Inl ValueError)"

definition new_text_part ::
  "text_part list \<Rightarrow> style \<Rightarrow> string list \<Rightarrow> text_part option \<Rightarrow> (text_part list \<times> text_part) result" where
  "new_text_part cont st ids0 last_part =
     bind (case last_part of
             None \<Rightarrow> Inr cont
           | Some lp \<Rightarrow> if tp_text lp = [] then list_remove lp cont else Inr cont) (\<lambda>cont1.
       let tp = \<lparr>tp_style = st, tp_text = [], tp_ids = ids0\<rparr>
       in Inr (cont1 @ [tp], tp))"

text \<open>\<^verbatim>\<open>element.split('\n')\<close>.\<close>

fun split_nl :: "string \<Rightarrow> string list" where
  "split_nl [] = [[]]"
| "split_nl (ch # cs) =
     (if ch = CHR 0x0A then [] # split_nl cs
      else (case split_nl cs of [] \<Rightarrow> [[ch]] | l # ls \<Rightarrow> (ch # l) # ls))"

text \<open>
  The body of \<^verbatim>\<open>for line in lines[1:]\<close>. Its first statement is
  \<^verbatim>\<open>self.elements.append({'type': 'br'})\<close>; the object has no attribute
  \<^verbatim>\<open>elements\<close> (the list of that name is a local variable), so the first pass raises.
\<close>

fun break_lines ::
  "text_part list \<times> text_part \<Rightarrow> string list \<Rightarrow> (text_part list \<times> text_part) result" where
  "break_lines acc [] = Inr acc"
| "break_lines acc (line # rest) = Inl AttributeError"

text \<open>\<^verbatim>\<open>text_part['text'] += t\<close>: the part is the last one of \<^verbatim>\<open>self.content\<close>.\<close>

definition append_text :: "text_part list \<times> text_part \<Rightarrow> string \<Rightarrow> text_part list \<times> text_part" where
  "append_text acc t =
     (case acc of (cont, tp) \<Rightarrow>
        let tp1 = tp\<lparr>tp_text := tp_text tp @ t\<rparr> in (butlast cont @ [tp1], tp1))"

definition startswith_dot :: "string \<Rightarrow> bool" where
  "startswith_dot k = (case k of [] \<Rightarrow> False | ch # _ \<Rightarrow> ch = CHR ''.'')"

text \<open>The first key that starts with a dot, as the loop over \<^verbatim>\<open>content.items()\<close> finds it.\<close>

fun first_dot :: "(string \<times> pyval) list \<Rightarrow> (string \<times> pyval) option" where
  "first_dot [] = None"
| "first_dot ((k, v) # kvs) = (if startswith_dot k then Some (k, v) else first_dot kvs)"

definition add_anchor :: "string \<Rightarrow> pyval \<Rightarrow> string list \<Rightarrow> string list result" where
  "add_anchor prefix v ids0 =
     (case v of
        VNone \<Rightarrow> Inr ids0
      | VStr t \<Rightarrow> Inr (ids0 @ [prefix @ t])
      | _ \<Rightarrow> Inl TypeError)"

text \<open>
  \<^verbatim>\<open>_recursive_content_parse\<close> up to its loop over the elements: the dictionary the
  content stands for, the style of the scope, the elements, the first text part and
  the anchors.
\<close>

definition as_dict :: "helpers \<Rightarrow> pyval \<Rightarrow> (string \<times> pyval) list result" where
  "as_dict hp cont =
     bind (case cont of
             VStr t \<Rightarrow> Inr [(''.'', VList [VStr t])]
           | VList es \<Rightarrow> Inr [(''.'', VList es)]
           | VDict kvs \<Rightarrow> Inr kvs
           | _ \<Rightarrow> Inl TypeError) (\<lambda>kvs.
       case pdf_context hp of
         None \<Rightarrow> Inr kvs
       | Some ctx \<Rightarrow>
           if length kvs = 1 \<and> map_of kvs ''var'' \<noteq> None then
             (case dict_get kvs ''var'' of
                VStr k \<Rightarrow> Inr [(''.'', VList [VStr (case ctx k of None \<Rightarrow> [] | Some t \<Rightarrow> t)])]
              | VList _ \<Rightarrow> Inl TypeError
              | VDict _ \<Rightarrow> Inl TypeError
              | _ \<Rightarrow> Inr [(''.'', VList [VStr []])])
           else Inr kvs)"

definition scope_elements ::
  "helpers \<Rightarrow> fonts \<Rightarrow> (string \<times> pyval) list \<Rightarrow> style \<Rightarrow> (style \<times> pyval list) result" where
  "scope_elements hp fonts kvs st =
     (case first_dot kvs of
        None \<Rightarrow> Inr (st, [])
      | Some (k, v) \<Rightarrow>
          bind (parse_style_str hp (tl k) fonts) (\<lambda>d.
            case v of
              VStr t \<Rightarrow> Inr (style_update st d, [VStr t])
            | VList es \<Rightarrow> Inr (style_update st d, es)
            | _ \<Rightarrow> Inl TypeError))"

definition open_scope ::
  "helpers \<Rightarrow> fonts \<Rightarrow> (string \<times> pyval) list \<Rightarrow> style \<Rightarrow> string list \<Rightarrow> text_part list \<Rightarrow>
   (style \<times> text_part list \<times> text_part) result" where
  "open_scope hp fonts kvs st ids0 cont0 =
     bind (process_style hp (dict_get kvs ''style'')) (\<lambda>d.
     bind (new_text_part cont0 (style_update st d) ids0 None) (\<lambda>(cont1, tp).
     bind (add_anchor ''$label:'' (dict_get kvs ''label'') (tp_ids tp)) (\<lambda>ids1.
     bind (add_anchor ''$ref:'' (dict_get kvs ''ref'') ids1) (\<lambda>ids2.
     bind (add_anchor ''$uri:'' (dict_get kvs ''uri'') ids2) (\<lambda>ids3.
       let tp1 = tp\<lparr>tp_ids := ids3\<rparr>
       in Inr (style_update st d, butlast cont1 @ [tp1], tp1))))))"

text \<open>
  The weight of an element list for the termination of the parse: only dictionaries
  are parsed recursively.
\<close>

definition elem_weight :: "pyval \<Rightarrow> nat" where
  "elem_weight e = (case e of VDict kvs \<Rightarrow> 3 * size e + 3 | _ \<Rightarrow> 1)"

text \<open>
  \<^verbatim>\<open>_recursive_content_parse(content, parent_style, ids)\<close> on the list
  \<^verbatim>\<open>self.content\<close>, and its loop over \<^verbatim>\<open>elements\<close>. The loop carries
  \<^verbatim>\<open>self.content\<close>, \<^verbatim>\<open>text_part\<close> and \<^verbatim>\<open>is_last_string\<close>.
\<close>

function recursive_content_parse ::
    "helpers \<Rightarrow> fonts \<Rightarrow> pyval \<Rightarrow> style \<Rightarrow> string list \<Rightarrow> text_part list \<Rightarrow> text_part list result"
  and elements_loop ::
    "helpers \<Rightarrow> fonts \<Rightarrow> style \<Rightarrow> pyval list \<Rightarrow> text_part list \<times> text_part \<Rightarrow> bool \<Rightarrow>
     (text_part list \<times> text_part) result"
where
  "recursive_content_parse hp fonts cont parent_style ids0 cont0 =
     (case as_dict hp cont of
        Inl e \<Rightarrow> Inl e
      | Inr kvs \<Rightarrow>
          (case scope_elements hp fonts kvs parent_style of
             Inl e \<Rightarrow> Inl e
           | Inr (st1, elements) \<Rightarrow>
               (case open_scope hp fonts kvs st1 ids0 cont0 of
                  Inl e \<Rightarrow> Inl e
                | Inr (st2, cont1, tp) \<Rightarrow>
                    (case elements_loop hp fonts st2 elements (cont1, tp) False of
                       Inl e \<Rightarrow> Inl e
                     | Inr (cont2, tp2) \<Rightarrow>
                         if tp_text tp2 = [] then list_remove tp2 cont2 else Inr cont2))))"
| "elements_loop hp fonts st [] acc is_last_string = Inr acc"
| "elements_loop hp fonts st (element # rest) acc is_last_string =
     (case element of
        VStr t \<Rightarrow>
          if t \<noteq> [] then
            (case (if \<not> is_last_string
                   then new_text_part (fst acc) st (tp_ids (snd acc)) (Some (snd acc))
                   else Inr acc) of
               Inl e \<Rightarrow> Inl e
             | Inr acc1 \<Rightarrow>
                 (case break_lines (append_text acc1 (hd (split_nl t))) (tl (split_nl t)) of
                    Inl e \<Rightarrow> Inl e
                  | Inr acc2 \<Rightarrow> elements_loop hp fonts st rest acc2 True))
          else Inl TypeError
      | VDict kvs \<Rightarrow>
          (case recursive_content_parse hp fonts (VDict kvs) st (tp_ids (snd acc)) (fst acc) of
             Inl e \<Rightarrow> Inl e
           | Inr cont1 \<Rightarrow> elements_loop hp fonts st rest (cont1, snd acc) False)
      | _ \<Rightarrow> Inl TypeError)"
  by pat_completeness auto
termination
proof (relation "measure (\<lambda>x. case x of
            Inl (hp, fonts, cont, st, ids0, cont0) \<Rightarrow> 3 * size cont + 2
          | Inr (hp, fonts, st, es, acc, ils) \<Rightarrow> sum_list (map elem_weight es))",
       goal_cases)
  case 1
  show ?case by simp
next
  case (2 hp fonts cont parent_style ids0 cont0 kvs se st1 elements)
  have w: "sum_list (map elem_weight es) \<le> 3 * size_list size es" for es
    by (induction es) (auto simp: elem_weight_def split: pyval.splits)
  have fd: "first_dot kvs' = Some (k, VList es) \<Longrightarrow>
            size_list size es < size_list (size_prod (\<lambda>_. 0) size) kvs'" for kvs' k es
    by (induction kvs' rule: first_dot.induct) (auto split: if_splits)
  from 2(2,3) have "elements = [] \<or> (\<exists>t. elements = [VStr t]) \<or>
      (\<exists>k. first_dot kvs = Some (k, VList elements))"
    by (auto simp: scope_elements_def bind_def split: option.splits sum.splits pyval.splits)
  then show ?case
  proof (elim disjE exE)
    fix k assume fdk: "first_dot kvs = Some (k, VList elements)"
    have "sum_list (map elem_weight elements) < 3 * size cont + 2"
    proof (cases "cont = VDict kvs")
      case True
      from fd[OF fdk] w[of elements] True show ?thesis by simp
    next
      case False
      with 2(1) fdk have "(\<exists>t. elements = [VStr t]) \<or> cont = VList elements"
        by (auto simp: as_dict_def bind_def dict_get_def startswith_dot_def
                 split: pyval.splits option.splits sum.splits if_splits)
      then show ?thesis using w[of elements] by (auto simp: elem_weight_def)
    qed
    then show ?thesis by simp
  qed (simp_all add: elem_weight_def)
next
  case 3
  then show ?case by (simp add: elem_weight_def)
next
  case 4
  then show ?case by (simp add: elem_weight_def)
next
  case 5
  then show ?case by (simp add: elem_weight_def)
qed

text \<open>A text part of the parse as an element of the content of \<^verbatim>\<open>PDFTextBase\<close>.\<close>

definition patch_of_style :: "style \<Rightarrow> style_patch" where
  "patch_of_style st =
     \<lparr>p_f = Some (st_f st), p_c = Some (st_c st), p_s = Some (st_s st), p_r = Some (st_r st),
      p_bg = Some (st_bg st), p_b = Some (st_b st), p_i = Some (st_i st), p_u = Some (st_u st)\<rparr>"

definition elem_of_text_part :: "text_part \<Rightarrow> elem" where
  "elem_of_text_part tp =
     PDict \<lparr>part_type = None, part_text = TStr (tp_text tp),
            part_patch = patch_of_style (tp_style tp), part_ids = Some (tp_ids tp)\<rparr>"

text \<open>
  \<^verbatim>\<open>PDFText.__init__\<close>: parses the content into \<^verbatim>\<open>self.content\<close> and hands it to
  \<^verbatim>\<open>PDFTextBase.__init__\<close>. \<open>std\<close> is \<^verbatim>\<open>STANDARD_FONTS\<close>, used when no table is given.
\<close>

definition PDFText ::
  "helpers \<Rightarrow> fonts \<Rightarrow> pyval \<Rightarrow> rat option \<Rightarrow> rat option \<Rightarrow> rat \<Rightarrow> rat \<Rightarrow> fonts option \<Rightarrow>
   string option \<Rightarrow> rat option \<Rightarrow> rat \<Rightarrow> string option \<Rightarrow> rat option \<Rightarrow> list_style_val \<Rightarrow>
   flow result" where
  "PDFText hp std cont w h x0 y0 fonts ta lh ind ltext lindent lstyle =
     (let fs = default fonts std
      in bind (recursive_content_parse hp fs cont TEXT_DEFAULTS [] []) (\<lambda>parts.
           PDFTextBase (CList (map elem_of_text_part parts)) w h x0 y0 fs ta lh ind
             ltext lindent lstyle))"

section \<open>PDF.create_text\<close>

text \<open>
  A value handed to a call. The call \<^verbatim>\<open>PDFText(content, self.fonts_data, **style)\<close>
  binds two positional values and the keywords of \<^verbatim>\<open>style\<close> to the parameters of
  \<^verbatim>\<open>PDFText.__init__\<close>, as Python binds arguments: positional values fill the
  parameters in order, a keyword must name a parameter that has no value yet, and a
  parameter left without a value takes its default or is missing. Each failure is a
  \<^verbatim>\<open>TypeError\<close>.
\<close>

datatype arg = AContent pyval | AFonts fonts | ANum rat | AStr string | ANone

type_synonym signature = "(string \<times> arg option) list"

fun bind_positional :: "signature \<Rightarrow> arg list \<Rightarrow> (string \<times> arg) list result" where
  "bind_positional params [] = Inr []"
| "bind_positional [] (v # vs) = Inl TypeError"
| "bind_positional ((name, dflt) # params) (v # vs) =
     bind (bind_positional params vs) (\<lambda>bound. Inr ((name, v) # bound))"

fun bind_keywords ::
  "signature \<Rightarrow> (string \<times> arg) list \<Rightarrow> (string \<times> arg) list \<Rightarrow> (string \<times> arg) list result" where
  "bind_keywords params bound [] = Inr bound"
| "bind_keywords params bound ((k, v) # kws) =
     (if k \<notin> set (map fst params) then Inl TypeError
      else if k \<in> set (map fst bound) then Inl TypeError
      else bind_keywords params (bound @ [(k, v)]) kws)"

fun bind_defaults :: "signature \<Rightarrow> (string \<times> arg) list \<Rightarrow> (string \<times> arg) list result" where
  "bind_defaults [] bound = Inr []"
| "bind_defaults ((name, dflt) # params) bound =
     bind (case map_of bound name of
             Some v \<Rightarrow> Inr v
           | None \<Rightarrow> (case dflt of None \<Rightarrow> Inl TypeError | Some d \<Rightarrow> Inr d)) (\<lambda>v.
     bind (bind_defaults params bound) (\<lambda>rest. Inr ((name, v) # rest)))"

definition bind_arguments ::
  "signature \<Rightarrow> arg list \<Rightarrow> (string \<times> arg) list \<Rightarrow> (string \<times> arg) list result" where
  "bind_arguments params positional kws =
     bind (bind_positional params positional) (\<lambda>bound.
     bind (bind_keywords params bound kws) (\<lambda>bound1.
       bind_defaults params bound1))"

text \<open>The parameters of \<^verbatim>\<open>PDFText.__init__\<close> after \<^verbatim>\<open>self\<close>, with their defaults.\<close>

definition PDFText_signature :: signature where
  "PDFText_signature =
     [(''content'', None), (''width'', None), (''height'', None), (''x'', Some (ANum 0)),
      (''y'', Some (ANum 0)), (''fonts'', Some ANone), (''text_align'', Some ANone),
      (''line_height'', Some ANone), (''indent'', Some (ANum 0)), (''list_text'', Some ANone),
      (''list_indent'', Some (ANum 0)), (''list_style'', Some ANone), (''pdf'', Some ANone)]"

text \<open>The fields of a \<^verbatim>\<open>PDF\<close> object that \<^verbatim>\<open>default_text_style\<close> and \<^verbatim>\<open>create_text\<close> read.\<close>

record pdf =
  pdf_width :: rat
  pdf_height :: rat
  margins :: "rat list"
  pdf_x :: rat
  pdf_y :: rat
  pdf_text_align :: string
  pdf_line_height :: rat
  fonts_data :: fonts

definition index :: "'a list \<Rightarrow> nat \<Rightarrow> 'a result" where
  "index xs n = (if n < length xs then Inr (xs ! n) else Inl IndexError)"

definition default_text_style ::
  "pdf \<Rightarrow> rat option \<Rightarrow> rat option \<Rightarrow> string option \<Rightarrow> rat option \<Rightarrow> rat \<Rightarrow>
   (string \<times> arg) list result" where
  "default_text_style pd w h ta lh ind =
     bind (case w of
             None \<Rightarrow> bind (index (margins pd) 3) (\<lambda>m. Inr (pdf_width pd + m - pdf_x pd))
           | Some v \<Rightarrow> Inr v) (\<lambda>w1.
     bind (case h of
             None \<Rightarrow> bind (index (margins pd) 0) (\<lambda>m. Inr (pdf_height pd + m - pdf_y pd))
           | Some v \<Rightarrow> Inr v) (\<lambda>h1.
       Inr [(''width'', ANum w1), (''height'', ANum h1),
            (''text_align'', AStr (default ta (pdf_text_align pd))),
            (''line_height'', ANum (default lh (pdf_line_height pd))),
            (''indent'', ANum ind)]))"

text \<open>
  \<^verbatim>\<open>create_text\<close>. The values are bound to the parameters of \<^verbatim>\<open>PDFText.__init__\<close>
  first. The body of the constructor then receives the bound values with whatever
  types they have (it checks none of them), which the typed \<open>PDFText\<close> above does not
  cover: the body on the bound values is the argument \<open>ctor\<close>. After the
  construction \<^verbatim>\<open>create_text\<close> calls \<^verbatim>\<open>pdf_text.process()\<close>, a method that neither
  \<^verbatim>\<open>PDFText\<close> nor \<^verbatim>\<open>PDFTextBase\<close> defines.
\<close>

definition create_text ::
  "((string \<times> arg) list \<Rightarrow> 't result) \<Rightarrow> pdf \<Rightarrow> pyval \<Rightarrow> rat option \<Rightarrow> rat option \<Rightarrow>
   string option \<Rightarrow> rat option \<Rightarrow> rat \<Rightarrow> 't result" where
  "create_text ctor pd cont w h ta lh ind =
     bind (default_text_style pd w h ta lh ind) (\<lambda>style.
     bind (bind_arguments PDFText_signature [AContent cont, AFonts (fonts_data pd)] style)
       (\<lambda>bound.
     bind (ctor bound) (\<lambda>pdf_text.
       Inl AttributeError)))"

text \<open>
  \<^verbatim>\<open>PDF.text\<close>: \<^verbatim>\<open>create_text\<close>, then \<^verbatim>\<open>add_text\<close>, which works on the document
  model (\<^verbatim>\<open>PDFBase\<close>, not among the sources) and is the argument \<open>add_text\<close>.
\<close>

definition pdf_text ::
  "(pdf \<Rightarrow> 't \<Rightarrow> string \<Rightarrow> 'r result) \<Rightarrow> ((string \<times> arg) list \<Rightarrow> 't result) \<Rightarrow> pdf \<Rightarrow> pyval \<Rightarrow>
   rat option \<Rightarrow> rat option \<Rightarrow> string option \<Rightarrow> rat option \<Rightarrow> rat \<Rightarrow> string \<Rightarrow> 'r result" where
  "pdf_text add_text ctor pd cont w h ta lh ind move =
     bind (create_text ctor pd cont w h ta lh ind) (\<lambda>t. add_text pd t move)"

section \<open>A fixture\<close>

text \<open>
  The metric table of the scenarios: one family with the normal variant, every
  character 600 units wide. A block of one part at size 10 is 6 points per character.
\<close>

definition fixture_fonts :: fonts where
  "fixture_fonts =
     [''Helvetica'' \<mapsto> [''n'' \<mapsto> \<lparr>ref = ''F1'', base_font = ''Helvetica'',
                                    widths = (\<lambda>ch. Some 600)\<rparr>]]"

definition fixture_block :: "text_val \<Rightarrow> rat \<Rightarrow> rat \<Rightarrow> string \<Rightarrow> flow result" where
  "fixture_block t w h ta =
     PDFTextBase (CList [PDict \<lparr>part_type = None, part_text = t,
                               part_patch = empty_patch\<lparr>p_s := Some 10\<rparr>, part_ids = None\<rparr>])
       (Some w) (Some h) 0 0 fixture_fonts (Some ta) None 0 None (Some 0) LSNone"

definition fixture_pss :: "string \<Rightarrow> fonts \<Rightarrow> style_patch result" where
  "fixture_pss t fo = Inr empty_patch"

definition fixture_helpers :: helpers where
  "fixture_helpers = \<lparr>parse_style_str = fixture_pss, process_style = (\<lambda>v. Inr empty_patch),
     pdf_context = None\<rparr>"

definition fixture_part :: "string list \<Rightarrow> rat \<Rightarrow> rat \<Rightarrow> line_part" where
  "fixture_part ws w sw =
     \<lparr>part_style = style_update TEXT_DEFAULTS (empty_patch\<lparr>p_s := Some 10\<rparr>),
      state = \<lparr>font_family = ''Helvetica'', font_mode = ''n'', state_size = 10,
               state_color = PDFColor (Some [1/10]), rise = 0\<rparr>,
      underline = False, background = PDFColor None, ids = None, width = w, words = ws,
      space_width = 6, spaces_width = sw\<rparr>"

text \<open>The tokens of a line in order, and what a call of \<^verbatim>\<open>run\<close> leaves behind.\<close>

definition line_tokens :: "text_line \<Rightarrow> string list" where
  "line_tokens l = concat (map words (line_parts l))"

definition pending_tokens :: "text_line \<Rightarrow> string list" where
  "pending_tokens l = (case next_line l of None \<Rightarrow> [] | Some n \<Rightarrow> line_tokens n)"

definition shown_texts :: "tok list \<Rightarrow> string list" where
  "shown_texts ts = concat (map (\<lambda>t. case t of Lit x \<Rightarrow> [x] | _ \<Rightarrow> []) ts)"

section \<open>Properties\<close>

subsection \<open>Line parts\<close>

lemma word_width_total:
  "\<forall>ch \<in> set w. \<exists>x. char_width fonts st ch = Inr x \<Longrightarrow> \<exists>x. word_width fonts st w = Inr x"
proof (induction w)
  case Nil
  show ?case by simp
next
  case (Cons ch cs)
  then obtain x y where "char_width fonts st ch = Inr x" "word_width fonts st cs = Inr y"
    by auto
  then show ?case by (simp add: bind_def)
qed

text \<open>
  C10. When the metric table has a width for every character of the word \<open>w\<close>,
  \<^verbatim>\<open>add_word(w)\<close> on a line part succeeds and \<^verbatim>\<open>pop_word()\<close> right after it returns \<open>w\<close>
  and gives back the part as it was before: the same words, word width and spaces
  width (and every other field).
\<close>

theorem add_word_pop_word_identity:
  assumes "\<forall>ch \<in> set w. \<exists>x. get_char_width fonts p ch = Inr x"
  shows "\<exists>p'. part_add_word fonts p w = Inr p' \<and> pop_word fonts p' = Inr (Some w, p)"
proof (cases "w = '' ''")
  case True
  then show ?thesis by (simp add: part_add_word_def pop_word_def)
next
  case False
  from assms obtain x where x: "word_width fonts (state p) w = Inr x"
    using word_width_total[of w fonts "state p"] by (auto simp: get_char_width_def)
  with False show ?thesis
    by (simp add: part_add_word_def pop_word_def get_word_width_def bind_def)
qed

theorem add_word_pop_word_identity_witness:
  "\<exists>p'. part_add_word fixture_fonts (fixture_part [''AAAA''] 24 0) ''BBBB'' = Inr p' \<and>
        pop_word fixture_fonts p' = Inr (Some ''BBBB'', fixture_part [''AAAA''] 24 0)"
  by (rule add_word_pop_word_identity)
     (simp add: get_char_width_def char_width_def fixture_fonts_def fixture_part_def)

subsection \<open>Comparing states\<close>

text \<open>
  C8. For a state whose font is in the table (reference \<open>rf\<close>), \<^verbatim>\<open>compare\<close> returns the
  font directive exactly when the prior state is absent or differs in family, mode or
  size, followed by the colour directive exactly when the prior state is absent or
  its colour differs, followed by the rise directive exactly when the prior state is
  absent or its rise differs. With a prior state equal in all three groups the result
  is empty.
\<close>

theorem compare_emits_changed_groups:
  assumes "font_ref fonts a = Inr rf"
  shows "compare fonts a prior =
           Inr ((if prior = None \<or> (\<exists>p. prior = Some p \<and>
                       (font_family a \<noteq> font_family p \<or> font_mode a \<noteq> font_mode p \<or>
                        state_size a \<noteq> state_size p))
                 then font_directive rf (state_size a) else []) @
                (if prior = None \<or> (\<exists>p. prior = Some p \<and> state_color a \<noteq> state_color p)
                 then color_directive (state_color a) else []) @
                (if prior = None \<or> (\<exists>p. prior = Some p \<and> rise a \<noteq> rise p)
                 then rise_directive (rise a) else []))
         \<and> font_directive rf (state_size a) \<noteq> []
         \<and> color_directive (state_color a) \<noteq> []
         \<and> rise_directive (rise a) \<noteq> []
         \<and> (\<forall>p. prior = Some p \<and> font_family a = font_family p \<and> font_mode a = font_mode p \<and>
                 state_size a = state_size p \<and> state_color a = state_color p \<and>
                 rise a = rise p \<longrightarrow> compare fonts a prior = Inr [])"
  using assms
  by (cases prior)
     (auto simp: compare_def bind_def font_differs_def color_differs_def rise_differs_def
                 font_directive_def color_directive_def rise_directive_def)

theorem compare_emits_changed_groups_witness:
  "font_ref fixture_fonts
     \<lparr>font_family = ''Helvetica'', font_mode = ''n'', state_size = 10,
      state_color = PDFColor None, rise = 0\<rparr> = Inr ''F1''
   \<and> compare fixture_fonts
       \<lparr>font_family = ''Helvetica'', font_mode = ''n'', state_size = 10,
        state_color = PDFColor None, rise = 0\<rparr>
       (Some \<lparr>font_family = ''Helvetica'', font_mode = ''n'', state_size = 12,
              state_color = PDFColor None, rise = 0\<rparr>)
     = Inr (font_directive ''F1'' 10)"
proof -
  have h: "font_ref fixture_fonts
     \<lparr>font_family = ''Helvetica'', font_mode = ''n'', state_size = 10,
      state_color = PDFColor None, rise = 0\<rparr> = Inr ''F1''"
    by (simp add: font_ref_def fixture_fonts_def)
  show ?thesis
    using h compare_emits_changed_groups[OF h,
      of "Some \<lparr>font_family = ''Helvetica'', font_mode = ''n'', state_size = 12,
              state_color = PDFColor None, rise = 0\<rparr>"]
    by simp
qed

subsection \<open>Committing a line\<close>

text \<open>
  C7. When the height of the current line times the line height, added to the
  cumulative height, exceeds the height of the block, \<^verbatim>\<open>add_current_line\<close> returns
  \<^verbatim>\<open>False\<close> as a value (no exception) and the state is the one it was called on: the
  committed lines, the cumulative height, both streams and the set of used fonts are
  unchanged.
\<close>

theorem add_current_line_overflow:
  assumes "height (current_line fl) * tb_line_height fl + current_height fl > tb_height fl"
  shows "add_current_line fl is_last = Inr (False, fl)"
  using assms by (simp add: add_current_line_def Let_def)

theorem add_current_line_overflow_witness:
  "\<exists>fl. bind (fixture_block (TStr ''AAAA'') 30 5 ''l'')
            (\<lambda>fl0. Inr (fl0\<lparr>current_line :=
                            set_line_parts [fixture_part [''AAAA''] 24 0] (current_line fl0)\<rparr>))
          = Inr fl
      \<and> height (current_line fl) * tb_line_height fl + current_height fl > tb_height fl
      \<and> add_current_line fl True = Inr (False, fl)"
proof -
  obtain fl where fl:
    "bind (fixture_block (TStr ''AAAA'') 30 5 ''l'')
       (\<lambda>fl0. Inr (fl0\<lparr>current_line :=
                       set_line_parts [fixture_part [''AAAA''] 24 0] (current_line fl0)\<rparr>))
     = Inr fl"
    by (simp add: fixture_block_def PDFTextBase_def bind_def)
  then have h: "height (current_line fl) * tb_line_height fl + current_height fl > tb_height fl"
    by (auto simp: fixture_block_def PDFTextBase_def bind_def default_def height_def
                   set_line_parts_def fixture_part_def PARAGRAPH_DEFAULTS_line_height_def
                   PDFTextLine_def)
  from fl h add_current_line_overflow[OF h, of True] show ?thesis by blast
qed

subsection \<open>Laying out a block\<close>

text \<open>
  C2. The scenario: the fixture table, size 10, the content \<open>AAAA BBBB\<close>, width 30,
  left aligned, a height of 1000. \<^verbatim>\<open>run\<close> returns \<^verbatim>\<open>True\<close> with two committed
  lines. The first holds \<open>AAAA\<close> alone. The second has no token at all: \<open>BBBB\<close> is
  still in its pending line when \<^verbatim>\<open>run\<close> commits it, and never reaches the text
  stream.
\<close>

theorem scenario_second_line_is_empty:
  "case bind (fixture_block (TStr ''AAAA BBBB'') 30 1000 ''l'') (run fixture_pss) of
     Inl e \<Rightarrow> False
   | Inr (v, fl) \<Rightarrow>
       v \<and> finished fl
       \<and> map line_tokens (committed_lines fl) = [[''AAAA''], []]
       \<and> map pending_tokens (committed_lines fl) = [[], [''BBBB'']]
       \<and> ''AAAA'' \<in> set (shown_texts (tb_text fl))
       \<and> ''BBBB'' \<notin> set (shown_texts (tb_text fl))"
  by code_simp

text \<open>
  C1. The fixture table, size 10, the content \<open>AAAA BBBB \<close> (with a space at the end),
  width 55, left aligned. \<^verbatim>\<open>run\<close> commits one line that holds two words and two
  spaces: its words are 48 wide and its spaces 12, at factor 1, which is 60 against
  a \<^verbatim>\<open>max_width\<close> of 55.
\<close>

theorem last_line_keeps_trailing_space:
  "case bind (fixture_block (TStr ''AAAA BBBB '') 55 1000 ''l'') (run fixture_pss) of
     Inl e \<Rightarrow> False
   | Inr (v, fl) \<Rightarrow>
       v
       \<and> map line_tokens (committed_lines fl) = [[''AAAA'', '' '', ''BBBB'', '' '']]
       \<and> map get_widths (committed_lines fl) = [(48, 12)]
       \<and> map factor (committed_lines fl) = [1]
       \<and> map max_width (committed_lines fl) = [55]
       \<and> list_all (\<lambda>l. fst (get_widths l) + snd (get_widths l) * factor l > max_width l)
            (committed_lines fl)"
  by code_simp

text \<open>
  C4. The fixture table, size 10, the content \<open>AAAA BBBB\<close>, width 30 and a height of 5,
  less than the 11 points of the first line. \<^verbatim>\<open>run\<close> returns \<^verbatim>\<open>False\<close> with no
  committed line, but the cursor is at part 1, word 0: past the only part. A second
  \<^verbatim>\<open>run\<close> with a height of 1000 then finishes with one empty line and shows no text.
\<close>

theorem overflow_on_first_line_moves_cursor:
  "case bind (fixture_block (TStr ''AAAA BBBB'') 30 5 ''l'') (run fixture_pss) of
     Inl e \<Rightarrow> False
   | Inr (v, fl) \<Rightarrow>
       \<not> v \<and> \<not> finished fl \<and> length (lines fl) = 0
       \<and> last_part_index fl = 1 \<and> last_word_index fl = 0
       \<and> length (content fl) = 1
       \<and> (case run fixture_pss (fl\<lparr>tb_height := 1000\<rparr>) of
            Inl e \<Rightarrow> False
          | Inr (v2, fl2) \<Rightarrow>
              v2 \<and> map line_tokens (committed_lines fl2) = [[]]
              \<and> ''AAAA'' \<notin> set (shown_texts (tb_text fl2))
              \<and> ''BBBB'' \<notin> set (shown_texts (tb_text fl2)))"
  by code_simp

text \<open>
  C6. The fixture table, size 10, width 1000. The tokens \<open>A\<close>, space, space give a line
  with one space: the second space is ignored. The tokens \<open>A\<close>, space, \<open>B\<close>, space,
  space give a line with two spaces after \<open>B\<close>: once a word has been added to an
  active line, \<^verbatim>\<open>is_last_word_space\<close> is \<^verbatim>\<open>False\<close> for good and every space is added.
\<close>

theorem spaces_after_second_word_are_all_added:
  "(case bind (fixture_block (TWords [''A'', '' '', '' '']) 1000 1000 ''l'') (run fixture_pss) of
      Inl e \<Rightarrow> False
    | Inr (v, fl) \<Rightarrow> map line_tokens (committed_lines fl) = [[''A'', '' '']])
   \<and> (case bind (fixture_block (TWords [''A'', '' '', ''B'', '' '', '' '']) 1000 1000 ''l'')
              (run fixture_pss) of
        Inl e \<Rightarrow> False
      | Inr (v, fl) \<Rightarrow>
          map line_tokens (committed_lines fl) = [[''A'', '' '', ''B'', '' '', '' '']]
          \<and> map get_widths (committed_lines fl) = [(12, 18)])"
  by code_simp

subsection \<open>The justification factor\<close>

text \<open>
  The claim C3 as stated fails: the fixture table, size 10, the content
  \<open>A B CCCCCCCCC\<close>, width 60, justified. The first committed line is \<open>A B\<close>, it is not
  the last line of the block and it has a space; the emitter gives it the factor 8,
  and the word spacing it writes is \<open>6 * (8 - 1) = 42\<close>.
\<close>

theorem justify_factor_above_one:
  "case fixture_block (TStr ''A B CCCCCCCCC'') 60 1000 ''j'' of
     Inl e \<Rightarrow> False
   | Inr fl0 \<Rightarrow>
       (case (init fl0, run fixture_pss fl0) of
          (Inr fl1, Inr (v, fl)) \<Rightarrow>
            map line_tokens (committed_lines fl) = [[''A'', '' '', ''B''], []]
            \<and> emitted_factor fl1 (hd (committed_lines fl)) False = Inr 8
            \<and> \<not> (7/10 \<le> (8::rat) \<and> (8::rat) \<le> 1)
            \<and> take 3 (drop 15 (tb_text fl)) = [Lit '' '', Num 42, Lit '' Tw'']
        | _ \<Rightarrow> False)"
  by code_simp

lemma widths_loop_sums:
  "widths_loop ps a b = (a + sum_list (map width ps), b + sum_list (map spaces_width ps))"
  by (induction ps arbitrary: a b) (simp_all add: add.assoc)

lemma part_widths_add_up:
  assumes "get_widths l = (ww, sw)"
  shows "sum_list (map (\<lambda>p. current_width p fac) (line_parts l)) = ww + sw * fac"
proof -
  from assms have ww: "ww = sum_list (map width (line_parts l))"
    and sw: "sw = sum_list (map spaces_width (line_parts l))"
    by (simp_all add: get_widths_def widths_loop_sums)
  have "sum_list (map (\<lambda>p. current_width p fac) ps)
          = sum_list (map width ps) + sum_list (map spaces_width ps) * fac" for ps
    by (induction ps) (simp_all add: current_width_def algebra_simps)
  then show ?thesis by (simp add: ww sw)
qed

text \<open>
  C3, amended. \<^verbatim>\<open>add_current_line\<close> commits the current line by handing it to
  \<^verbatim>\<open>add_line_to_stream\<close>, which writes every part of the line at one factor \<open>fac\<close>:
  the word spacing and the advance of each part are computed from it, so the parts
  together advance by words width plus spaces width times \<open>fac\<close>. When the alignment
  is not \<open>j\<close> or the line has no spaces width, \<open>fac\<close> is 1. When the alignment is \<open>j\<close>,
  the line has a spaces width and is not committed as the last line of the block
  (\<^verbatim>\<open>is_last\<close> is false), \<open>fac\<close> is the width left for the spaces divided by the spaces
  width, with no clamping, and words width plus spaces width times \<open>fac\<close> is within
  0.001 of the target: the width of the block minus \<^verbatim>\<open>list_indent\<close>, and minus the
  indent on the first line of the block. Nothing is said of a justified last line.
\<close>

theorem justified_line_is_stretched_to_its_width:
  assumes "list_indent fl = Some li"
    and "get_widths (current_line fl) = (ww, sw)"
    and "height (current_line fl) * tb_line_height fl + current_height fl \<le> tb_height fl"
    and "fl1 = fl\<lparr>current_height :=
                      current_height fl + height (current_line fl) * tb_line_height fl,
                    lines := lines fl @ [length (retired fl)],
                    used_fonts := used_fonts fl \<union> current_line_used_fonts fl,
                    current_line_used_fonts := {}\<rparr>"
    and "target = tb_width fl - li
                    - (if \<not> tb_started fl \<and> is_first_line fl then indent fl else 0)"
  shows "\<exists>fac.
           add_current_line fl is_last =
             bind (add_line_to_stream fl1 (current_line fl) False) (\<lambda>fl2. Inr (True, fl2))
         \<and> add_line_to_stream fl1 (current_line fl) False =
             bind (position_line fl1 (current_line fl))
               (\<lambda>(x0, fl2). emit_parts fl2 (line_parts (current_line fl)) fac x0)
         \<and> sum_list (map (\<lambda>p. current_width p fac) (line_parts (current_line fl)))
             = ww + sw * fac
         \<and> (tb_text_align fl \<noteq> ''j'' \<or> sw = 0 \<longrightarrow> fac = 1)
         \<and> (tb_text_align fl = ''j'' \<and> \<not> is_last \<and> sw \<noteq> 0 \<longrightarrow>
              fac = (target - ww) / sw \<and> \<bar>ww + sw * fac - target\<bar> \<le> 1/1000)"
proof -
  define fac where
    "fac = (if tb_text_align fl \<noteq> ''j'' \<or> sw = 0 then 1 else (target - ww) / sw)"
  have commit: "add_current_line fl is_last =
      bind (add_line_to_stream fl1 (current_line fl) False) (\<lambda>fl2. Inr (True, fl2))"
    using assms(3,4) by (simp add: add_current_line_def Let_def)
  have "emitted_factor fl1 (current_line fl) False = Inr fac"
    using assms(1,2,4,5)
    by (simp add: emitted_factor_def factor_width_def ignore_factor_def num_def bind_def
                  fac_def)
  then have emit: "add_line_to_stream fl1 (current_line fl) False =
      bind (position_line fl1 (current_line fl))
        (\<lambda>(x0, fl2). emit_parts fl2 (line_parts (current_line fl)) fac x0)"
    by (simp add: add_line_to_stream_def bind_def)
  have total: "sum_list (map (\<lambda>p. current_width p fac) (line_parts (current_line fl)))
                 = ww + sw * fac"
    by (rule part_widths_add_up[OF assms(2)])
  have one: "tb_text_align fl \<noteq> ''j'' \<or> sw = 0 \<longrightarrow> fac = 1"
    by (auto simp: fac_def)
  have fill: "tb_text_align fl = ''j'' \<and> \<not> is_last \<and> sw \<noteq> 0 \<longrightarrow>
                fac = (target - ww) / sw \<and> \<bar>ww + sw * fac - target\<bar> \<le> 1/1000"
    by (auto simp: fac_def)
  from commit emit total one fill show ?thesis by blast
qed

theorem justified_line_is_stretched_to_its_width_witness:
  "\<exists>fl fac.
       bind (fixture_block (TStr ''A B CCCCCCCCC'') 60 1000 ''j'')
         (\<lambda>fl0. bind (init fl0)
            (\<lambda>f. Inr (f\<lparr>current_line :=
                           set_line_parts [fixture_part [''A'', '' ''] 6 6,
                                           fixture_part [''B''] 6 0] (current_line f)\<rparr>)))
         = Inr fl
     \<and> tb_text_align fl = ''j'' \<and> get_widths (current_line fl) = (12, 6)
     \<and> add_current_line fl False =
         bind (add_line_to_stream
                 (fl\<lparr>current_height :=
                        current_height fl + height (current_line fl) * tb_line_height fl,
                      lines := lines fl @ [length (retired fl)],
                      used_fonts := used_fonts fl \<union> current_line_used_fonts fl,
                      current_line_used_fonts := {}\<rparr>)
                 (current_line fl) False)
           (\<lambda>fl2. Inr (True, fl2))
     \<and> add_line_to_stream
           (fl\<lparr>current_height :=
                  current_height fl + height (current_line fl) * tb_line_height fl,
                lines := lines fl @ [length (retired fl)],
                used_fonts := used_fonts fl \<union> current_line_used_fonts fl,
                current_line_used_fonts := {}\<rparr>)
           (current_line fl) False =
         bind (position_line
                 (fl\<lparr>current_height :=
                        current_height fl + height (current_line fl) * tb_line_height fl,
                      lines := lines fl @ [length (retired fl)],
                      used_fonts := used_fonts fl \<union> current_line_used_fonts fl,
                      current_line_used_fonts := {}\<rparr>)
                 (current_line fl))
           (\<lambda>(x0, fl2). emit_parts fl2 (line_parts (current_line fl)) fac x0)
     \<and> fac = 8 \<and> \<bar>12 + 6 * fac - 60\<bar> \<le> (1/1000 :: rat)"
proof -
  obtain fl where fl:
    "bind (fixture_block (TStr ''A B CCCCCCCCC'') 60 1000 ''j'')
       (\<lambda>fl0. bind (init fl0)
          (\<lambda>f. Inr (f\<lparr>current_line :=
                         set_line_parts [fixture_part [''A'', '' ''] 6 6,
                                         fixture_part [''B''] 6 0] (current_line f)\<rparr>)))
       = Inr fl"
    by (simp add: fixture_block_def PDFTextBase_def init_def bind_def num_def)
  then have li: "list_indent fl = Some 0"
    and ta: "tb_text_align fl = ''j''" and w: "tb_width fl = 60"
    and first: "\<not> tb_started fl" "is_first_line fl" "indent fl = 0"
    and ch: "current_height fl = 0" "tb_height fl = 1000" "tb_line_height fl = 11/10"
    and cl: "current_line fl =
               set_line_parts [fixture_part [''A'', '' ''] 6 6, fixture_part [''B''] 6 0]
                 (PDFTextLine 60 (Some ''j'') (Some (11/10)) 0)"
    by (auto simp: fixture_block_def PDFTextBase_def init_def bind_def num_def default_def
                   PARAGRAPH_DEFAULTS_line_height_def)
  have gw: "get_widths (current_line fl) = (12, 6)"
    by (simp add: cl get_widths_def set_line_parts_def fixture_part_def)
  have fits: "height (current_line fl) * tb_line_height fl + current_height fl \<le> tb_height fl"
    by (simp add: cl ch height_def set_line_parts_def fixture_part_def PDFTextLine_def)
  have tg: "(60::rat) = tb_width fl - 0
               - (if \<not> tb_started fl \<and> is_first_line fl then indent fl else 0)"
    using w first by simp
  from justified_line_is_stretched_to_its_width[OF li gw fits refl tg, of False] ta
  obtain fac where
    "add_current_line fl False =
       bind (add_line_to_stream
               (fl\<lparr>current_height :=
                      current_height fl + height (current_line fl) * tb_line_height fl,
                    lines := lines fl @ [length (retired fl)],
                    used_fonts := used_fonts fl \<union> current_line_used_fonts fl,
                    current_line_used_fonts := {}\<rparr>)
               (current_line fl) False)
         (\<lambda>fl2. Inr (True, fl2))"
    "add_line_to_stream
         (fl\<lparr>current_height :=
                current_height fl + height (current_line fl) * tb_line_height fl,
              lines := lines fl @ [length (retired fl)],
              used_fonts := used_fonts fl \<union> current_line_used_fonts fl,
              current_line_used_fonts := {}\<rparr>)
         (current_line fl) False =
       bind (position_line
               (fl\<lparr>current_height :=
                      current_height fl + height (current_line fl) * tb_line_height fl,
                    lines := lines fl @ [length (retired fl)],
                    used_fonts := used_fonts fl \<union> current_line_used_fonts fl,
                    current_line_used_fonts := {}\<rparr>)
               (current_line fl))
         (\<lambda>(x0, fl2). emit_parts fl2 (line_parts (current_line fl)) fac x0)"
    "fac = (60 - 12) / 6" "\<bar>12 + 6 * fac - 60\<bar> \<le> (1/1000 :: rat)"
    by auto
  with fl ta gw show ?thesis by auto
qed

subsection \<open>Parsing the content\<close>

text \<open>
  C5. The scope \<^verbatim>\<open>{'.': 'a\nb', 'label': 'x'}\<close>, a string with a line break inside
  under an anchor: the parse does not split it, it stops with an
  \<^verbatim>\<open>AttributeError\<close>, and so does the constructor \<^verbatim>\<open>PDFText\<close>. The same string
  without the line break is parsed into one run that carries the anchor.
\<close>

theorem line_break_in_string_raises:
  "recursive_content_parse fixture_helpers fixture_fonts
     (VDict [(''.'', VStr [CHR ''a'', CHR 0x0A, CHR ''b'']), (''label'', VStr ''x'')])
     TEXT_DEFAULTS [] [] = Inl AttributeError
   \<and> (case PDFText fixture_helpers fixture_fonts
              (VDict [(''.'', VStr [CHR ''a'', CHR 0x0A, CHR ''b'']), (''label'', VStr ''x'')])
              (Some 100) (Some 100) 0 0 None None None 0 None (Some 0) LSNone of
         Inl e \<Rightarrow> e = AttributeError
       | Inr fl \<Rightarrow> False)
   \<and> recursive_content_parse fixture_helpers fixture_fonts
       (VDict [(''.'', VStr ''ab''), (''label'', VStr ''x'')]) TEXT_DEFAULTS [] []
     = Inr [\<lparr>tp_style = TEXT_DEFAULTS, tp_text = ''ab'', tp_ids = [''$label:x'']\<rparr>]"
  by code_simp

subsection \<open>The entry point\<close>

text \<open>
  C9. On a \<^verbatim>\<open>PDF\<close> object with its four margins, \<^verbatim>\<open>create_text\<close> ends in a
  \<^verbatim>\<open>TypeError\<close> whatever the content and the other arguments are, and whatever the
  body of the constructor would do: the fonts table takes the place of \<^verbatim>\<open>width\<close> and
  the keyword \<^verbatim>\<open>width\<close> of the default text style gives it a second value. \<^verbatim>\<open>text\<close>
  starts with \<^verbatim>\<open>create_text\<close> and ends the same way.
\<close>

theorem create_text_raises_type_error:
  assumes "length (margins pd) = 4"
  shows "create_text ctor pd cont w h ta lh ind = Inl TypeError
         \<and> pdf_text add_text ctor pd cont w h ta lh ind move = Inl TypeError"
proof -
  obtain style where style: "default_text_style pd w h ta lh ind = Inr style"
    and first: "\<exists>v rest. style = (''width'', v) # rest"
    using assms
    by (cases w; cases h) (auto simp: default_text_style_def bind_def index_def)
  from first obtain v rest where st: "style = (''width'', v) # rest" by blast
  have "bind_arguments PDFText_signature [AContent cont, AFonts (fonts_data pd)] style
          = Inl TypeError"
    unfolding st by (simp add: bind_arguments_def PDFText_signature_def bind_def)
  then have "create_text ctor pd cont w h ta lh ind = Inl TypeError"
    by (simp add: create_text_def style bind_def)
  then show ?thesis by (simp add: pdf_text_def bind_def)
qed

theorem create_text_raises_type_error_witness:
  "length (margins \<lparr>pdf_width = 400, pdf_height = 700, margins = [50, 50, 50, 50], pdf_x = 50,
                    pdf_y = 50, pdf_text_align = ''l'', pdf_line_height = 11/10,
                    fonts_data = fixture_fonts\<rparr>) = 4
   \<and> create_text (\<lambda>bound. Inr bound)
       \<lparr>pdf_width = 400, pdf_height = 700, margins = [50, 50, 50, 50], pdf_x = 50,
        pdf_y = 50, pdf_text_align = ''l'', pdf_line_height = 11/10, fonts_data = fixture_fonts\<rparr>
       (VStr ''AAAA BBBB'') None None None None 0 = Inl TypeError"
proof -
  have h: "length (margins \<lparr>pdf_width = 400, pdf_height = 700, margins = [50, 50, 50, 50],
                            pdf_x = 50, pdf_y = 50, pdf_text_align = ''l'',
                            pdf_line_height = 11/10, fonts_data = fixture_fonts\<rparr>) = 4"
    by simp
  from create_text_raises_type_error[OF h] h show ?thesis by blast
qed

end
